theory Spec2Isabelle
  imports
    Complex_Main
    "HOL-Library.Char_ord"
    "HOL-Library.List_Lexorder"
    "HOL-Library.Log_Nat"
    "HOL-Library.Multiset"
    "HOL-Library.Word"
begin

section \<open>Data model\<close>

text \<open>
  The application keeps its expenses in one file, \<^verbatim>\<open>EXPENSE_FILE = 'expenses.csv'\<close>.
  The file system is modelled by the content of that file: \<open>None\<close> when
  \<^verbatim>\<open>os.path.exists(EXPENSE_FILE)\<close> is false, \<open>Some text\<close> otherwise.

  Amounts are Python floats in the source. A float is a rational number, and the model
  holds amounts as rationals. The arithmetic of the aggregator and of the chart renderer is
  exact in the model: it does not round, and it has no infinity and no NaN. The sums that
  the source takes in float64 are given a second time, with the rounding of each
  addition, in the section on float64 sums, for the claim that the total and the category
  totals are equal.
\<close>

type_synonym store = "string option"

text \<open>
  A row of the data frame with the columns \<^verbatim>\<open>['name', 'amount', 'category']\<close>. A cell is
  \<open>None\<close> where pandas holds NaN (a missing value). The amount column holds field text
  after \<^verbatim>\<open>read_csv\<close> and numbers after \<^verbatim>\<open>to_numeric\<close>.
\<close>

record 'a row =
  name :: "string option"
  amount :: "'a option"
  category :: "string option"

text \<open>An exception that was raised, with the text that \<^verbatim>\<open>str(e)\<close> gives for it.\<close>

datatype py_exception =
    ParserError string
  | IllegalMonthError string
  | PlotError string
  | OSError string

fun exception_str :: "py_exception \<Rightarrow> string" where
  "exception_str (ParserError m) = m"
| "exception_str (IllegalMonthError m) = m"
| "exception_str (PlotError m) = m"
| "exception_str (OSError m) = m"

text \<open>Decimal digits of a number, as \<^verbatim>\<open>str\<close> and \<^verbatim>\<open>%r\<close> print an integer.\<close>

definition digit_char :: "int \<Rightarrow> char" where
  "digit_char d = char_of (48 + d mod 10)"

function show_digits :: "int \<Rightarrow> string" where
  "show_digits n =
     (if n < 10 then [digit_char n] else show_digits (n div 10) @ [digit_char (n mod 10)])"
  by pat_completeness auto
termination
  by (relation "measure nat") auto

declare show_digits.simps [simp del]

definition show_int :: "int \<Rightarrow> string" where
  "show_int i = (if i < 0 then CHR ''-'' # show_digits (- i) else show_digits i)"

text \<open>
  The library functions the source calls. They are not part of the repository, so the model
  takes them as parameters:
  \<^item> \<open>read_csv\<close>: \<^verbatim>\<open>pd.read_csv(EXPENSE_FILE, header=None, names=[...])\<close> on the file's
    text; it may raise;
  \<^item> \<open>to_numeric\<close>: what \<^verbatim>\<open>read_csv\<close>'s type inference followed by
    \<^verbatim>\<open>pd.to_numeric(..., errors='coerce')\<close> makes of the text of one amount field,
    \<open>None\<close> for NaN;
  \<^item> \<open>py_float\<close>: Python's \<^verbatim>\<open>float(s)\<close>, \<open>None\<close> for ValueError;
  \<^item> \<open>str_float\<close>: the text an f-string prints for a float;
  \<^item> \<open>savefig_png\<close>: the bytes matplotlib writes for the bar plot of a series; it may
    raise;
  \<^item> \<open>os_remove\<close>: what \<^verbatim>\<open>os.remove(EXPENSE_FILE)\<close> does on an existing file: \<open>None\<close>
    when the file is removed, the exception when it raises and the file stays.
\<close>

record env =
  read_csv :: "string \<Rightarrow> py_exception + string row list"
  to_numeric :: "string \<Rightarrow> rat option"
  py_float :: "string \<Rightarrow> rat option"
  str_float :: "rat \<Rightarrow> string"
  savefig_png :: "(string \<times> rat) list \<Rightarrow> py_exception + 8 word list"
  os_remove :: "py_exception option"

text \<open>The fields of \<^verbatim>\<open>datetime.datetime.now()\<close> that the source reads.\<close>

record date =
  year :: int
  month :: int
  day :: int

text \<open>The tuple \<^verbatim>\<open>get_expense_data\<close> returns, in the source's order.\<close>

record snapshot =
  expenses_list :: "rat row list"
  category_totals :: "(string \<times> rat) list"
  total_spent :: rat
  remaining_budget :: rat
  daily_budget :: rat
  total_expenses :: nat

definition BUDGET :: rat where
  "BUDGET = 2000"

section \<open>The pandas operations used\<close>

text \<open>\<^verbatim>\<open>df['amount'] = pd.to_numeric(df['amount'], errors='coerce')\<close>\<close>

definition coerce_amount :: "env \<Rightarrow> string row list \<Rightarrow> rat row list" where
  "coerce_amount E df =
     map (\<lambda>r. \<lparr>name = name r, amount = Option.bind (amount r) (to_numeric E),
               category = category r\<rparr>) df"

text \<open>\<^verbatim>\<open>df.dropna()\<close>: a row stays when no cell of it is missing.\<close>

definition dropna :: "'a row list \<Rightarrow> 'a row list" where
  "dropna df = filter (\<lambda>r. name r \<noteq> None \<and> amount r \<noteq> None \<and> category r \<noteq> None) df"

text \<open>\<^verbatim>\<open>df.dropna(subset=["amount", "category"])\<close>\<close>

definition dropna_amount_category :: "'a row list \<Rightarrow> 'a row list" where
  "dropna_amount_category df = filter (\<lambda>r. amount r \<noteq> None \<and> category r \<noteq> None) df"

text \<open>\<^verbatim>\<open>df['amount'].sum()\<close>: missing values are skipped.\<close>

definition amount_sum :: "rat row list \<Rightarrow> rat" where
  "amount_sum df = sum_list (List.map_filter amount df)"

text \<open>
  \<^verbatim>\<open>df.groupby('category')['amount'].sum()\<close>: one entry for each distinct category that is
  not missing, keys in ascending order, each with the sum of its rows' amounts.
\<close>

definition groupby_category_sum :: "rat row list \<Rightarrow> (string \<times> rat) list" where
  "groupby_category_sum df =
     map (\<lambda>k. (k, amount_sum (filter (\<lambda>r. category r = Some k) df)))
       (sort (remdups (List.map_filter category df)))"

section \<open>The calendar\<close>

definition isleap :: "int \<Rightarrow> bool" where
  "isleap y \<longleftrightarrow> y mod 4 = 0 \<and> (y mod 100 \<noteq> 0 \<or> y mod 400 = 0)"

definition mdays :: "int list" where
  "mdays = [0, 31, 28, 31, 30, 31, 30, 31, 31, 30, 31, 30, 31]"

text \<open>\<^verbatim>\<open>calendar.monthrange(year, month)[1]\<close>\<close>

definition monthrange_days :: "int \<Rightarrow> int \<Rightarrow> py_exception + int" where
  "monthrange_days y m =
     (if \<not> (1 \<le> m \<and> m \<le> 12)
      then Inl (IllegalMonthError (''bad month number '' @ show_int m @ ''; must be 1-12''))
      else Inr (mdays ! nat m + (if m = 2 \<and> isleap y then 1 else 0)))"

section \<open>The aggregator\<close>

definition get_expense_data :: "env \<Rightarrow> date \<Rightarrow> store \<Rightarrow> py_exception + snapshot" where
  "get_expense_data E now fs =
     (case fs of
        None \<Rightarrow>
          Inr \<lparr>expenses_list = [], category_totals = [], total_spent = 0,
               remaining_budget = BUDGET, daily_budget = 0, total_expenses = 0\<rparr>
      | Some text \<Rightarrow>
          (case read_csv E text of
             Inl e \<Rightarrow> Inl e
           | Inr raw \<Rightarrow>
               let expenses_df = dropna (coerce_amount E raw);
                   spent = amount_sum expenses_df;
                   remaining = BUDGET - spent;
                   n = length expenses_df
               in (case monthrange_days (year now) (month now) of
                     Inl e \<Rightarrow> Inl e
                   | Inr days_in_month \<Rightarrow>
                       let remaining_days = max 1 (days_in_month - day now);
                           daily = (if remaining > 0 then remaining / of_int remaining_days
                                    else 0)
                       in Inr \<lparr>expenses_list = expenses_df,
                               category_totals = groupby_category_sum expenses_df,
                               total_spent = spent, remaining_budget = remaining,
                               daily_budget = daily, total_expenses = n\<rparr>)))"

section \<open>The chart renderer\<close>

text \<open>
  \<^verbatim>\<open>sort_values(ascending=False)\<close> on the grouped sums. pandas does not fix the order of
  entries with equal sums; the model keeps them in key order.
\<close>

definition sort_values_desc :: "(string \<times> rat) list \<Rightarrow> (string \<times> rat) list" where
  "sort_values_desc agg = sort_key (\<lambda>p. - snd p) agg"

text \<open>\<^verbatim>\<open>base64.b64encode(...).decode()\<close>\<close>

definition b64_alphabet :: string where
  "b64_alphabet = ''ABCDEFGHIJKLMNOPQRSTUVWXYZabcdefghijklmnopqrstuvwxyz0123456789+/''"

definition b64_char :: "nat \<Rightarrow> char" where
  "b64_char i = b64_alphabet ! (i mod 64)"

fun b64encode :: "8 word list \<Rightarrow> string" where
  "b64encode [] = []"
| "b64encode [a] =
     [b64_char (unat a div 4), b64_char (unat a mod 4 * 16), CHR ''='', CHR ''='']"
| "b64encode [a, b] =
     [b64_char (unat a div 4), b64_char (unat a mod 4 * 16 + unat b div 16),
      b64_char (unat b mod 16 * 4), CHR ''='']"
| "b64encode (a # b # c # rest) =
     [b64_char (unat a div 4), b64_char (unat a mod 4 * 16 + unat b div 16),
      b64_char (unat b mod 16 * 4 + unat c div 64), b64_char (unat c mod 64)]
     @ b64encode rest"

text \<open>
  What \<^verbatim>\<open>generate_chart\<close> returns: \<^verbatim>\<open>jsonify({'error': msg}), status\<close> or
  \<^verbatim>\<open>jsonify({'chart': img_base64})\<close> with status 200.
\<close>

datatype response =
    Json_error string nat
  | Json_chart string

text \<open>The series that is plotted: one bar for each entry.\<close>

definition chart_series :: "env \<Rightarrow> string row list \<Rightarrow> (string \<times> rat) list" where
  "chart_series E raw =
     sort_values_desc (groupby_category_sum (dropna_amount_category (coerce_amount E raw)))"

definition generate_chart :: "env \<Rightarrow> store \<Rightarrow> response" where
  "generate_chart E fs =
     (case fs of
        None \<Rightarrow> Json_error ''No expenses found'' 404
      | Some text \<Rightarrow>
          (case read_csv E text of
             Inl e \<Rightarrow> Json_error (''Error generating chart: '' @ exception_str e) 500
           | Inr raw \<Rightarrow>
               if dropna_amount_category (coerce_amount E raw) = []
               then Json_error ''No valid expenses found'' 404
               else (case savefig_png E (chart_series E raw) of
                       Inl e \<Rightarrow> Json_error (''Error generating chart: '' @ exception_str e) 500
                     | Inr png \<Rightarrow> Json_chart (b64encode png))))"

section \<open>Submitting and clearing\<close>

text \<open>The three fields of the submitted form.\<close>

record submission =
  form_name :: string
  form_amount :: string
  form_category :: string

text \<open>
  Modelled from the spec: the class \<^verbatim>\<open>Expense\<close> of \<^verbatim>\<open>expense.py\<close> is not among the
  sources. The spec describes an expense record as a name, an amount and a category, so
  the constructor only stores its three arguments.
\<close>

datatype expense = Expense (expense_name: string) (expense_category: string) (expense_amount: rat)

text \<open>
  The message passed to \<^verbatim>\<open>flash\<close>:
  \<^item> \<open>Expense_added name amount\<close>: \<^verbatim>\<open>'Expense "{name}" of ${amount:.2f} added successfully!'\<close>,
    category \<^verbatim>\<open>'success'\<close>;
  \<^item> \<open>Invalid_amount\<close>: \<^verbatim>\<open>'Please enter a valid amount!'\<close>, category \<^verbatim>\<open>'error'\<close>;
  \<^item> \<open>Cleared\<close>: \<^verbatim>\<open>'All expenses cleared successfully!'\<close>, category \<^verbatim>\<open>'success'\<close>;
  \<^item> \<open>Nothing_to_clear\<close>: \<^verbatim>\<open>'No expenses to clear!'\<close>, category \<^verbatim>\<open>'warning'\<close>;
  \<^item> \<open>Clear_failed msg\<close>: \<^verbatim>\<open>'Error clearing expenses: {msg}'\<close>, category \<^verbatim>\<open>'error'\<close>.
\<close>

datatype flash =
    Expense_added string rat
  | Invalid_amount
  | Cleared
  | Nothing_to_clear
  | Clear_failed string

text \<open>
  \<^verbatim>\<open>add_expense\<close>: \<^verbatim>\<open>float(amount)\<close> is evaluated before anything is written, and its
  ValueError is caught by the first handler. Opening and writing the file are taken to
  succeed.
\<close>

definition add_expense :: "env \<Rightarrow> submission \<Rightarrow> store \<Rightarrow> store \<times> flash" where
  "add_expense E form fs =
     (case py_float E (form_amount form) of
        None \<Rightarrow> (fs, Invalid_amount)
      | Some a \<Rightarrow>
          let new_expense = Expense (form_name form) (form_category form) a;
              created = (case fs of None \<Rightarrow> [] | Some text \<Rightarrow> text);
              line = expense_name new_expense @ '','' @ str_float E (expense_amount new_expense)
                     @ '','' @ expense_category new_expense @ [CHR 0x0A]
          in (Some (created @ line), Expense_added (form_name form) a))"

text \<open>
  \<^verbatim>\<open>clear_all\<close>: when \<^verbatim>\<open>os.remove\<close> raises, the handler flashes the error and the file
  is still there.
\<close>

definition clear_all :: "env \<Rightarrow> store \<Rightarrow> store \<times> flash" where
  "clear_all E fs =
     (case fs of
        Some text \<Rightarrow>
          (case os_remove E of
             None \<Rightarrow> (None, Cleared)
           | Some e \<Rightarrow> (Some text, Clear_failed (exception_str e)))
      | None \<Rightarrow> (None, Nothing_to_clear))"

section \<open>Float64 sums\<close>









section \<open>An instance of the library functions\<close>

text \<open>
  The properties below hold for every \<open>env\<close>. To evaluate the model on concrete inputs an
  instance is needed; \<open>plain_env\<close> is one for plain input: lines of comma-separated fields
  without quotes, and amounts written as decimal numbers with an optional sign. On such
  input it returns what the libraries return.
\<close>

fun split_on :: "char \<Rightarrow> string \<Rightarrow> string list" where
  "split_on c [] = [[]]"
| "split_on c (x # xs) =
     (if x = c then [] # split_on c xs
      else (case split_on c xs of [] \<Rightarrow> [[x]] | w # ws \<Rightarrow> (x # w) # ws))"

text \<open>The field texts pandas reads as a missing value by default.\<close>

definition na_values :: "string list" where
  "na_values = ['''', ''#N/A'', ''#N/A N/A'', ''#NA'', ''-1.#IND'', ''-1.#QNAN'', ''-NaN'',
     ''-nan'', ''1.#IND'', ''1.#QNAN'', ''<NA>'', ''N/A'', ''NA'', ''NULL'', ''NaN'', ''None'',
     ''n/a'', ''nan'', ''null'']"

definition cell_of :: "string \<Rightarrow> string option" where
  "cell_of s = (if s \<in> set na_values then None else Some s)"

definition row_of :: "string list \<Rightarrow> string row" where
  "row_of cols =
     (let cells = map cell_of cols @ [None, None, None]
      in \<lparr>name = cells ! 0, amount = cells ! 1, category = cells ! 2\<rparr>)"

text \<open>Blank lines are skipped; a line with more than three fields is refused.\<close>

definition plain_read_csv :: "string \<Rightarrow> py_exception + string row list" where
  "plain_read_csv text =
     (let rows = map (split_on CHR '','') (filter (\<lambda>l. l \<noteq> []) (split_on (CHR 0x0A) text))
      in if list_ex (\<lambda>cols. length cols > 3) rows
         then Inl (ParserError ''Error tokenizing data'')
         else Inr (map row_of rows))"

definition digit_of :: "char \<Rightarrow> int option" where
  "digit_of c =
     (let n = (of_char c :: int) in if 48 \<le> n \<and> n \<le> 57 then Some (n - 48) else None)"

fun digits_val :: "int \<Rightarrow> string \<Rightarrow> int option" where
  "digits_val acc [] = Some acc"
| "digits_val acc (c # cs) =
     (case digit_of c of None \<Rightarrow> None | Some d \<Rightarrow> digits_val (10 * acc + d) cs)"

definition parse_unsigned :: "string \<Rightarrow> rat option" where
  "parse_unsigned s =
     (let int_part = takeWhile (\<lambda>c. c \<noteq> CHR ''.'') s;
          frac_part = drop 1 (dropWhile (\<lambda>c. c \<noteq> CHR ''.'') s)
      in if int_part = [] \<and> frac_part = [] then None
         else (case (digits_val 0 int_part, digits_val 0 frac_part) of
                 (Some i, Some f) \<Rightarrow> Some (of_int i + of_int f / 10 ^ length frac_part)
               | _ \<Rightarrow> None))"

definition parse_decimal :: "string \<Rightarrow> rat option" where
  "parse_decimal s =
     (case s of
        [] \<Rightarrow> None
      | c # cs \<Rightarrow>
          if c = CHR ''-'' then map_option uminus (parse_unsigned cs)
          else if c = CHR ''+'' then parse_unsigned cs
          else parse_unsigned s)"

text \<open>The digits after the decimal point, at most \<open>k\<close> of them.\<close>

fun frac_digits :: "nat \<Rightarrow> rat \<Rightarrow> string" where
  "frac_digits 0 q = []"
| "frac_digits (Suc k) q =
     (if q = 0 then []
      else (let d = \<lfloor>q * 10\<rfloor> in digit_char d # frac_digits k (q * 10 - of_int d)))"

definition show_decimal :: "rat \<Rightarrow> string" where
  "show_decimal q =
     (let a = \<bar>q\<bar>; i = \<lfloor>a\<rfloor>; f = a - of_int i
      in (if q < 0 then ''-'' else '''') @ show_digits i @ ''.''
         @ (if f = 0 then ''0'' else frac_digits 17 f))"

text \<open>A stand-in for the image: the PNG signature and one byte for each bar.\<close>

definition plain_savefig :: "(string \<times> rat) list \<Rightarrow> py_exception + 8 word list" where
  "plain_savefig series = Inr ([0x89, 0x50, 0x4E, 0x47] @ map (\<lambda>p. 0) series)"

definition plain_env :: env where
  "plain_env = \<lparr>read_csv = plain_read_csv, to_numeric = parse_decimal,
                 py_float = parse_decimal, str_float = show_decimal,
                 savefig_png = plain_savefig, os_remove = None\<rparr>"

section \<open>The specification's vocabulary\<close>

text \<open>
  The amounts of the records whose amount field parses as a number: the records the
  specification counts.
\<close>

definition parsing_amounts :: "env \<Rightarrow> string row list \<Rightarrow> rat list" where
  "parsing_amounts E raw = List.map_filter (\<lambda>r. Option.bind (amount r) (to_numeric E)) raw"

section \<open>Auxiliary facts\<close>

lemma monthrange_days_valid:
  assumes "1 \<le> m" "m \<le> 12"
  shows "\<exists>d. monthrange_days y m = Inr d \<and> 28 \<le> d \<and> d \<le> 31"
proof -
  from assms have "m = 1 \<or> m = 2 \<or> m = 3 \<or> m = 4 \<or> m = 5 \<or> m = 6 \<or> m = 7 \<or> m = 8
      \<or> m = 9 \<or> m = 10 \<or> m = 11 \<or> m = 12" by arith
  then show ?thesis
    by (auto simp: monthrange_days_def mdays_def)
qed

lemma get_expense_data_present:
  assumes "read_csv E text = Inr raw"
    and "monthrange_days (year now) (month now) = Inr days"
  shows "get_expense_data E now (Some text) =
     Inr \<lparr>expenses_list = dropna (coerce_amount E raw),
          category_totals = groupby_category_sum (dropna (coerce_amount E raw)),
          total_spent = amount_sum (dropna (coerce_amount E raw)),
          remaining_budget = BUDGET - amount_sum (dropna (coerce_amount E raw)),
          daily_budget =
            (if BUDGET - amount_sum (dropna (coerce_amount E raw)) > 0
             then (BUDGET - amount_sum (dropna (coerce_amount E raw)))
                  / of_int (max 1 (days - day now))
             else 0),
          total_expenses = length (dropna (coerce_amount E raw))\<rparr>"
  using assms by (simp add: get_expense_data_def Let_def)

lemma get_expense_data_None:
  "get_expense_data E now None =
     Inr \<lparr>expenses_list = [], category_totals = [], total_spent = 0,
          remaining_budget = BUDGET, daily_budget = 0, total_expenses = 0\<rparr>"
  by (simp add: get_expense_data_def)

lemma amount_sum_Cons:
  "amount_sum (r # df) = (case amount r of None \<Rightarrow> 0 | Some a \<Rightarrow> a) + amount_sum df"
  by (simp add: amount_sum_def List.map_filter_simps split: option.splits)

lemma amount_sum_Nil: "amount_sum [] = 0"
  by (simp add: amount_sum_def List.map_filter_simps)

lemma set_map_filter_category:
  "set (List.map_filter category df) = {k. \<exists>r\<in>set df. category r = Some k}"
  by (induction df) (auto simp: List.map_filter_simps split: option.splits)

lemma groupby_keys:
  "map fst (groupby_category_sum df) = sort (remdups (List.map_filter category df))"
  by (simp add: groupby_category_sum_def comp_def)


lemma set_groupby_keys:
  "fst ` set (groupby_category_sum df) = {k. \<exists>r\<in>set df. category r = Some k}"
proof -
  have "fst ` set (groupby_category_sum df) = set (map fst (groupby_category_sum df))"
    by simp
  also have "\<dots> = {k. \<exists>r\<in>set df. category r = Some k}"
    unfolding groupby_keys by (simp add: set_map_filter_category)
  finally show ?thesis .
qed

lemma groupby_entry:
  assumes "kv \<in> set (groupby_category_sum df)"
  shows "snd kv = amount_sum (filter (\<lambda>r. category r = Some (fst kv)) df)"
  using assms by (auto simp: groupby_category_sum_def)



lemma b64encode_nonempty: "png \<noteq> [] \<Longrightarrow> b64encode png \<noteq> []"
  by (induction png rule: b64encode.induct) simp_all

lemma length_groupby:
  "length (groupby_category_sum df) = card (set (List.map_filter category df))"
  by (simp add: groupby_category_sum_def length_remdups_card_conv)

lemma sort_values_desc_props:
  "length (sort_values_desc agg) = length agg"
  "set (sort_values_desc agg) = set agg"
  "sorted_wrt (\<lambda>a b. a \<ge> b) (map snd (sort_values_desc agg))"
proof -
  show "length (sort_values_desc agg) = length agg"
    by (simp add: sort_values_desc_def)
  show "set (sort_values_desc agg) = set agg"
    by (simp add: sort_values_desc_def)
  have "sorted (map (\<lambda>p. - snd p) (sort_values_desc agg))"
    unfolding sort_values_desc_def by (rule sorted_sort_key)
  then show "sorted_wrt (\<lambda>a b. a \<ge> b) (map snd (sort_values_desc agg))"
    by (simp add: sorted_wrt_map)
qed

lemma dropna_amount_category_empty:
  "dropna_amount_category (coerce_amount E raw) = []
     \<longleftrightarrow> (\<forall>r\<in>set raw. Option.bind (amount r) (to_numeric E) = None \<or> category r = None)"
  by (auto simp: dropna_amount_category_def coerce_amount_def filter_empty_conv)

lemma get_expense_data_raises:
  assumes "read_csv E text = Inl e"
  shows "get_expense_data E now (Some text) = Inl e"
  using assms by (simp add: get_expense_data_def)

lemma dropna_skip:
  assumes "name r = None \<or> category r = None \<or> Option.bind (amount r) (to_numeric E) = None"
  shows "dropna (coerce_amount E (xs @ r # ys)) = dropna (coerce_amount E (xs @ ys))"
  using assms by (auto simp: dropna_def coerce_amount_def)

lemma dropna_amount_category_skip:
  assumes "category r = None \<or> Option.bind (amount r) (to_numeric E) = None"
  shows "dropna_amount_category (coerce_amount E (xs @ r # ys))
       = dropna_amount_category (coerce_amount E (xs @ ys))"
  using assms by (auto simp: dropna_amount_category_def coerce_amount_def)

lemma dropna_amount_category_keep:
  assumes "category r = Some k" and "Option.bind (amount r) (to_numeric E) = Some a"
  shows "dropna_amount_category (coerce_amount E (xs @ r # ys))
       = dropna_amount_category (coerce_amount E xs)
         @ \<lparr>name = name r, amount = Some a, category = Some k\<rparr>
         # dropna_amount_category (coerce_amount E ys)"
  using assms by (simp add: dropna_amount_category_def coerce_amount_def)

lemma amount_sum_append:
  "amount_sum (xs @ ys) = amount_sum xs + amount_sum ys"
  by (induction xs) (simp_all add: amount_sum_Nil amount_sum_Cons)

lemma get_expense_data_same_rows:
  assumes "read_csv E t1 = Inr raw1" and "read_csv E t2 = Inr raw2"
    and "dropna (coerce_amount E raw1) = dropna (coerce_amount E raw2)"
  shows "get_expense_data E now (Some t1) = get_expense_data E now (Some t2)"
  using assms by (simp add: get_expense_data_def)

lemma generate_chart_same_rows:
  assumes "read_csv E t1 = Inr raw1" and "read_csv E t2 = Inr raw2"
    and "dropna_amount_category (coerce_amount E raw1)
       = dropna_amount_category (coerce_amount E raw2)"
  shows "generate_chart E (Some t1) = generate_chart E (Some t2)"
  using assms by (simp add: generate_chart_def chart_series_def)

lemma chart_series_counts:
  assumes "category r = Some k" and "Option.bind (amount r) (to_numeric E) = Some a"
  shows "(k, amount_sum (filter (\<lambda>r. category r = Some k)
               (dropna_amount_category (coerce_amount E (xs @ ys)))) + a)
         \<in> set (chart_series E (xs @ r # ys))"
proof -
  let ?df = "dropna_amount_category (coerce_amount E (xs @ r # ys))"
  let ?row = "\<lparr>name = name r, amount = Some a, category = Some k\<rparr>"
  have df: "?df = dropna_amount_category (coerce_amount E xs) @ ?row
      # dropna_amount_category (coerce_amount E ys)"
    using assms by (rule dropna_amount_category_keep)
  have rest: "dropna_amount_category (coerce_amount E (xs @ ys))
      = dropna_amount_category (coerce_amount E xs)
        @ dropna_amount_category (coerce_amount E ys)"
    by (simp add: dropna_amount_category_def coerce_amount_def)
  have "?row \<in> set ?df"
    unfolding df by simp
  then have "k \<in> fst ` set (groupby_category_sum ?df)"
    unfolding set_groupby_keys by force
  then obtain v where v: "(k, v) \<in> set (groupby_category_sum ?df)"
    by auto
  from groupby_entry [OF v]
  have "v = amount_sum (filter (\<lambda>r. category r = Some k) ?df)"
    by simp
  also have "\<dots> = amount_sum (filter (\<lambda>r. category r = Some k)
               (dropna_amount_category (coerce_amount E (xs @ ys)))) + a"
    unfolding df rest by (simp add: amount_sum_append amount_sum_Cons)
  finally show ?thesis
    using v by (simp add: chart_series_def sort_values_desc_props(2))
qed




section \<open>Properties\<close>

text \<open>
  C7. When the store is absent the aggregator returns the zeroed snapshot: no expenses, an
  empty category mapping, nothing spent, the whole budget remaining, a daily budget of 0
  and a count of 0.
\<close>

theorem get_expense_data_absent:
  "get_expense_data E now None =
     Inr \<lparr>expenses_list = [], category_totals = [], total_spent = 0,
          remaining_budget = 2000, daily_budget = 0, total_expenses = 0\<rparr>"
  by (simp add: get_expense_data_def BUDGET_def)

text \<open>
  C1 (the input at which the code fails the claim). The claim has \<open>total_spent\<close> and
  \<open>total_expenses\<close> range over every record whose amount parses. Submitting an empty
  name with the amount 5.0 and the category Food is accepted and stores the line
  \<^verbatim>\<open>,5.0,Food\<close>. Its amount parses, so the claim gives a total of 5 over 1 record; the
  aggregator's \<^verbatim>\<open>dropna()\<close> removes the row for its missing name and reports 0 over 0
  records, while the chart renderer, which drops rows by amount and category only, plots
  Food = 5 for the same store.
\<close>

theorem total_spent_unnamed_row:
  "add_expense plain_env \<lparr>form_name = '''', form_amount = ''5.0'', form_category = ''Food''\<rparr> None
     = (Some '',5.0,Food\<newline>'', Expense_added '''' 5)
   \<and> read_csv plain_env '',5.0,Food\<newline>''
     = Inr [\<lparr>name = None, amount = Some ''5.0'', category = Some ''Food''\<rparr>]
   \<and> sum_list (parsing_amounts plain_env
        [\<lparr>name = None, amount = Some ''5.0'', category = Some ''Food''\<rparr>]) = 5
   \<and> length (parsing_amounts plain_env
        [\<lparr>name = None, amount = Some ''5.0'', category = Some ''Food''\<rparr>]) = 1
   \<and> map_sum id total_spent (get_expense_data plain_env \<lparr>year = 2026, month = 11, day = 3\<rparr>
        (Some '',5.0,Food\<newline>'')) = Inr 0
   \<and> map_sum id total_expenses (get_expense_data plain_env \<lparr>year = 2026, month = 11, day = 3\<rparr>
        (Some '',5.0,Food\<newline>'')) = Inr 0
   \<and> chart_series plain_env [\<lparr>name = None, amount = Some ''5.0'', category = Some ''Food''\<rparr>]
     = [(''Food'', 5)]"
  by code_simp

text \<open>
  C2. When the store is read, the aggregator takes the number of days of the current
  month, computes \<open>remaining_days = max 1 (days_in_month - day)\<close>, and returns
  \<open>daily_budget = remaining_budget / remaining_days\<close> when \<open>remaining_budget > 0\<close> and
  \<open>0\<close> otherwise. So \<open>daily_budget\<close> is never negative, and it is \<open>0\<close> whenever
  \<open>remaining_budget \<le> 0\<close>; both hold for the snapshot of an absent store as well.
\<close>

theorem daily_budget_formula:
  assumes "read_csv E text = Inr raw" and "1 \<le> month now" and "month now \<le> 12"
  shows "(\<exists>s days_in_month.
       monthrange_days (year now) (month now) = Inr days_in_month
     \<and> get_expense_data E now (Some text) = Inr s
     \<and> daily_budget s =
         (if remaining_budget s > 0
          then remaining_budget s / of_int (max 1 (days_in_month - day now)) else 0)
     \<and> 0 \<le> daily_budget s
     \<and> (remaining_budget s \<le> 0 \<longrightarrow> daily_budget s = 0))
   \<and> (\<exists>s. get_expense_data E now None = Inr s
     \<and> 0 \<le> daily_budget s
     \<and> (remaining_budget s \<le> 0 \<longrightarrow> daily_budget s = 0))"
proof -
  have absent: "\<exists>s. get_expense_data E now None = Inr s
     \<and> 0 \<le> daily_budget s
     \<and> (remaining_budget s \<le> 0 \<longrightarrow> daily_budget s = 0)"
    by (simp add: get_expense_data_None)
  from assms(2,3) obtain days where d: "monthrange_days (year now) (month now) = Inr days"
    using monthrange_days_valid by blast
  have pos: "(0::rat) < of_int (max 1 (days - day now))"
    by simp
  let ?rem = "BUDGET - amount_sum (dropna (coerce_amount E raw))"
  have "0 < ?rem \<Longrightarrow> 0 \<le> ?rem / of_int (max 1 (days - day now))"
    using pos by (simp add: divide_nonneg_pos)
  with get_expense_data_present [OF assms(1) d] d
  have "\<exists>s days_in_month.
       monthrange_days (year now) (month now) = Inr days_in_month
     \<and> get_expense_data E now (Some text) = Inr s
     \<and> daily_budget s =
         (if remaining_budget s > 0
          then remaining_budget s / of_int (max 1 (days_in_month - day now)) else 0)
     \<and> 0 \<le> daily_budget s
     \<and> (remaining_budget s \<le> 0 \<longrightarrow> daily_budget s = 0)"
    by auto
  with absent show ?thesis
    by (rule conjI [rotated])
qed

theorem daily_budget_formula_witness:
  "read_csv plain_env ''Coffee,4.50,Food\<newline>''
     = Inr [\<lparr>name = Some ''Coffee'', amount = Some ''4.50'', category = Some ''Food''\<rparr>]
   \<and> monthrange_days 2026 11 = Inr 30
   \<and> (\<exists>s. get_expense_data plain_env \<lparr>year = 2026, month = 11, day = 3\<rparr>
            (Some ''Coffee,4.50,Food\<newline>'') = Inr s
          \<and> daily_budget s =
              (if remaining_budget s > 0 then remaining_budget s / 27 else 0)
          \<and> 0 \<le> daily_budget s)"
proof -
  have h: "read_csv plain_env ''Coffee,4.50,Food\<newline>''
     = Inr [\<lparr>name = Some ''Coffee'', amount = Some ''4.50'', category = Some ''Food''\<rparr>]"
    by code_simp
  have m: "monthrange_days 2026 11 = Inr 30"
    by (simp add: monthrange_days_def mdays_def)
  from daily_budget_formula [OF h, of "\<lparr>year = 2026, month = 11, day = 3\<rparr>"] h m
  show ?thesis by auto
qed


text \<open>
  C3. Whether the store is present or absent, \<open>remaining_budget\<close> is the fixed budget,
  2000, minus \<open>total_spent\<close>. The value can be negative: one expense of 2500 leaves
  \<open>- 500\<close>.
\<close>

theorem remaining_budget_eq:
  assumes "read_csv E text = Inr raw" and "1 \<le> month now" and "month now \<le> 12"
  shows "(\<exists>s. get_expense_data E now (Some text) = Inr s
            \<and> remaining_budget s = BUDGET - total_spent s)
     \<and> (\<exists>s. get_expense_data E now None = Inr s
            \<and> remaining_budget s = BUDGET - total_spent s)
     \<and> BUDGET = 2000
     \<and> map_sum id remaining_budget
          (get_expense_data plain_env \<lparr>year = 2026, month = 11, day = 3\<rparr>
             (Some ''Rent,2500,Home\<newline>'')) = Inr (- 500)"
proof -
  from assms(2,3) obtain days where d: "monthrange_days (year now) (month now) = Inr days"
    using monthrange_days_valid by blast
  have a: "\<exists>s. get_expense_data E now (Some text) = Inr s
            \<and> remaining_budget s = BUDGET - total_spent s"
    using get_expense_data_present [OF assms(1) d] by simp
  have b: "\<exists>s. get_expense_data E now None = Inr s
            \<and> remaining_budget s = BUDGET - total_spent s"
    by (simp add: get_expense_data_None)
  have c: "map_sum id remaining_budget
          (get_expense_data plain_env \<lparr>year = 2026, month = 11, day = 3\<rparr>
             (Some ''Rent,2500,Home\<newline>'')) = Inr (- 500)"
    by code_simp
  from a b c show ?thesis by (simp add: BUDGET_def)
qed

theorem remaining_budget_eq_witness:
  "read_csv plain_env ''Coffee,4.50,Food\<newline>Bus,2.00,Transport\<newline>''
     = Inr [\<lparr>name = Some ''Coffee'', amount = Some ''4.50'', category = Some ''Food''\<rparr>,
            \<lparr>name = Some ''Bus'', amount = Some ''2.00'', category = Some ''Transport''\<rparr>]
   \<and> (\<exists>s. get_expense_data plain_env \<lparr>year = 2026, month = 2, day = 28\<rparr>
            (Some ''Coffee,4.50,Food\<newline>Bus,2.00,Transport\<newline>'') = Inr s
          \<and> remaining_budget s = 2000 - total_spent s)"
proof -
  have h: "read_csv plain_env ''Coffee,4.50,Food\<newline>Bus,2.00,Transport\<newline>''
     = Inr [\<lparr>name = Some ''Coffee'', amount = Some ''4.50'', category = Some ''Food''\<rparr>,
            \<lparr>name = Some ''Bus'', amount = Some ''2.00'', category = Some ''Transport''\<rparr>]"
    by code_simp
  from remaining_budget_eq [OF h, of "\<lparr>year = 2026, month = 2, day = 28\<rparr>"] h
  show ?thesis by auto
qed




text \<open>
  C5 (as amended). The chart renderer answers 404 "No expenses found" when the store is
  absent, and 404 "No valid expenses found" when every row read from the store lacks a
  parseable amount or a category. When some row has a parseable amount and a category,
  and the plotting library writes a non-empty PNG for the series, the answer is the
  base64 text of that image, which is not empty; the series plotted has one bar for each
  distinct category among the rows kept, the bars are in descending order of their
  totals, and the total of a bar is the sum of the amounts of the rows kept in its
  category.
\<close>

theorem generate_chart_cases:
  assumes "read_csv E text = Inr raw"
  shows "generate_chart E None = Json_error ''No expenses found'' 404
     \<and> ((\<forall>r\<in>set raw. Option.bind (amount r) (to_numeric E) = None \<or> category r = None)
          \<longrightarrow> generate_chart E (Some text) = Json_error ''No valid expenses found'' 404)
     \<and> ((\<exists>r\<in>set raw. Option.bind (amount r) (to_numeric E) \<noteq> None \<and> category r \<noteq> None)
          \<and> savefig_png E (chart_series E raw) = Inr png \<and> png \<noteq> []
          \<longrightarrow> generate_chart E (Some text) = Json_chart (b64encode png)
              \<and> b64encode png \<noteq> []
              \<and> length (chart_series E raw)
                  = card (set (List.map_filter category
                      (dropna_amount_category (coerce_amount E raw))))
              \<and> sorted_wrt (\<lambda>a b. a \<ge> b) (map snd (chart_series E raw))
              \<and> (\<forall>kv\<in>set (chart_series E raw).
                    snd kv = amount_sum (filter (\<lambda>r. category r = Some (fst kv))
                      (dropna_amount_category (coerce_amount E raw)))))"
proof (intro conjI impI)
  show "generate_chart E None = Json_error ''No expenses found'' 404"
    by (simp add: generate_chart_def)
next
  assume "\<forall>r\<in>set raw. Option.bind (amount r) (to_numeric E) = None \<or> category r = None"
  then have "dropna_amount_category (coerce_amount E raw) = []"
    by (simp add: dropna_amount_category_empty)
  with assms show "generate_chart E (Some text) = Json_error ''No valid expenses found'' 404"
    by (simp add: generate_chart_def)
next
  assume a: "(\<exists>r\<in>set raw. Option.bind (amount r) (to_numeric E) \<noteq> None \<and> category r \<noteq> None)
          \<and> savefig_png E (chart_series E raw) = Inr png \<and> png \<noteq> []"
  then have "dropna_amount_category (coerce_amount E raw) \<noteq> []"
    by (simp add: dropna_amount_category_empty)
  with assms a show "generate_chart E (Some text) = Json_chart (b64encode png)"
    by (simp add: generate_chart_def)
  from a show "b64encode png \<noteq> []"
    by (simp add: b64encode_nonempty)
  show "length (chart_series E raw)
      = card (set (List.map_filter category (dropna_amount_category (coerce_amount E raw))))"
    by (simp add: chart_series_def sort_values_desc_props(1) length_groupby)
  show "sorted_wrt (\<lambda>a b. a \<ge> b) (map snd (chart_series E raw))"
    unfolding chart_series_def by (rule sort_values_desc_props(3))
  show "\<forall>kv\<in>set (chart_series E raw).
      snd kv = amount_sum (filter (\<lambda>r. category r = Some (fst kv))
        (dropna_amount_category (coerce_amount E raw)))"
    unfolding chart_series_def sort_values_desc_props(2) using groupby_entry by blast
qed

theorem generate_chart_cases_witness:
  "read_csv plain_env ''Taxi,abc,Transport\<newline>''
     = Inr [\<lparr>name = Some ''Taxi'', amount = Some ''abc'', category = Some ''Transport''\<rparr>]
   \<and> generate_chart plain_env (Some ''Taxi,abc,Transport\<newline>'')
       = Json_error ''No valid expenses found'' 404
   \<and> read_csv plain_env
         ''Coffee,4.50,Food\<newline>Bus,2.00,Transport\<newline>Bus,12.00,Transport\<newline>''
     = Inr [\<lparr>name = Some ''Coffee'', amount = Some ''4.50'', category = Some ''Food''\<rparr>,
            \<lparr>name = Some ''Bus'', amount = Some ''2.00'', category = Some ''Transport''\<rparr>,
            \<lparr>name = Some ''Bus'', amount = Some ''12.00'', category = Some ''Transport''\<rparr>]
   \<and> chart_series plain_env
         [\<lparr>name = Some ''Coffee'', amount = Some ''4.50'', category = Some ''Food''\<rparr>,
          \<lparr>name = Some ''Bus'', amount = Some ''2.00'', category = Some ''Transport''\<rparr>,
          \<lparr>name = Some ''Bus'', amount = Some ''12.00'', category = Some ''Transport''\<rparr>]
     = [(''Transport'', 14), (''Food'', 9 / 2)]
   \<and> generate_chart plain_env
         (Some ''Coffee,4.50,Food\<newline>Bus,2.00,Transport\<newline>Bus,12.00,Transport\<newline>'')
     = Json_chart (b64encode [0x89, 0x50, 0x4E, 0x47, 0, 0])
   \<and> b64encode [0x89, 0x50, 0x4E, 0x47, 0, 0] \<noteq> []"
proof -
  let ?rawA = "[\<lparr>name = Some ''Taxi'', amount = Some ''abc'', category = Some ''Transport''\<rparr>]"
  let ?rawB = "[\<lparr>name = Some ''Coffee'', amount = Some ''4.50'', category = Some ''Food''\<rparr>,
            \<lparr>name = Some ''Bus'', amount = Some ''2.00'', category = Some ''Transport''\<rparr>,
            \<lparr>name = Some ''Bus'', amount = Some ''12.00'', category = Some ''Transport''\<rparr>]"
  have hA: "read_csv plain_env ''Taxi,abc,Transport\<newline>'' = Inr ?rawA"
    by code_simp
  have allA: "\<forall>r\<in>set ?rawA. Option.bind (amount r) (to_numeric plain_env) = None
      \<or> category r = None"
    by code_simp
  have hB: "read_csv plain_env
         ''Coffee,4.50,Food\<newline>Bus,2.00,Transport\<newline>Bus,12.00,Transport\<newline>''
     = Inr ?rawB"
    by code_simp
  have exB: "\<exists>r\<in>set ?rawB. Option.bind (amount r) (to_numeric plain_env) \<noteq> None
      \<and> category r \<noteq> None"
    by code_simp
  have series: "chart_series plain_env ?rawB = [(''Transport'', 14), (''Food'', 9 / 2)]"
    by code_simp
  have png: "savefig_png plain_env (chart_series plain_env ?rawB)
      = Inr [0x89, 0x50, 0x4E, 0x47, 0, 0]"
    unfolding series by code_simp
  have ne: "[0x89, 0x50, 0x4E, 0x47, 0, 0] \<noteq> ([] :: 8 word list)"
    by simp
  from generate_chart_cases [OF hA] allA
  have a: "generate_chart plain_env (Some ''Taxi,abc,Transport\<newline>'')
       = Json_error ''No valid expenses found'' 404"
    by blast
  from generate_chart_cases [OF hB, of "[0x89, 0x50, 0x4E, 0x47, 0, 0]"] exB png ne
  have b: "generate_chart plain_env
         (Some ''Coffee,4.50,Food\<newline>Bus,2.00,Transport\<newline>Bus,12.00,Transport\<newline>'')
     = Json_chart (b64encode [0x89, 0x50, 0x4E, 0x47, 0, 0])
     \<and> b64encode [0x89, 0x50, 0x4E, 0x47, 0, 0] \<noteq> []"
    by blast
  from hA a hB series b show ?thesis
    by blast
qed

text \<open>
  The claim as first stated takes a row to be valid when its amount parses. The store
  holding the one line \<^verbatim>\<open>Coffee,4.50,\<close> has such a row, but its category is missing:
  \<^verbatim>\<open>dropna(subset=["amount", "category"])\<close> removes it, and the renderer answers 404
  instead of an image.
\<close>

theorem generate_chart_counterexample:
  "read_csv plain_env ''Coffee,4.50,\<newline>''
     = Inr [\<lparr>name = Some ''Coffee'', amount = Some ''4.50'', category = None\<rparr>]
   \<and> to_numeric plain_env ''4.50'' = Some (9 / 2)
   \<and> generate_chart plain_env (Some ''Coffee,4.50,\<newline>'')
       = Json_error ''No valid expenses found'' 404"
  by code_simp

text \<open>
  C6. A submission whose amount is not accepted by \<^verbatim>\<open>float\<close> is rejected with the
  message "Please enter a valid amount!" before anything is written: the store, present
  or absent, is returned as it was.
\<close>

theorem add_expense_rejects:
  assumes "py_float E (form_amount form) = None"
  shows "add_expense E form fs = (fs, Invalid_amount)"
  using assms by (simp add: add_expense_def)

theorem add_expense_rejects_witness:
  "py_float plain_env
     (form_amount \<lparr>form_name = ''Tea'', form_amount = ''abc'', form_category = ''Food''\<rparr>) = None
   \<and> add_expense plain_env
       \<lparr>form_name = ''Tea'', form_amount = ''abc'', form_category = ''Food''\<rparr> None
       = (None, Invalid_amount)
   \<and> add_expense plain_env
       \<lparr>form_name = ''Tea'', form_amount = ''abc'', form_category = ''Food''\<rparr>
       (Some ''Coffee,4.50,Food\<newline>'')
       = (Some ''Coffee,4.50,Food\<newline>'', Invalid_amount)"
proof -
  have h: "py_float plain_env
     (form_amount \<lparr>form_name = ''Tea'', form_amount = ''abc'', form_category = ''Food''\<rparr>) = None"
    by code_simp
  from add_expense_rejects [OF h, of None]
    add_expense_rejects [OF h, of "Some ''Coffee,4.50,Food\<newline>''"] h
  show ?thesis by simp
qed

text \<open>
  C8. When the store exists and \<^verbatim>\<open>os.remove\<close> removes it, clearing leaves no file, and
  with it no record; the snapshot read after that has an empty expense list and
  \<open>total_expenses = 0\<close>.
\<close>

theorem clear_all_then_read:
  assumes "os_remove E = None"
  shows "clear_all E (Some text) = (None, Cleared)
     \<and> (\<exists>s. get_expense_data E now (fst (clear_all E (Some text))) = Inr s
          \<and> expenses_list s = [] \<and> total_expenses s = 0)"
  using assms by (simp add: clear_all_def get_expense_data_None)

theorem clear_all_then_read_witness:
  "os_remove plain_env = None
   \<and> clear_all plain_env (Some ''Coffee,4.50,Food\<newline>'') = (None, Cleared)
   \<and> (\<exists>s. get_expense_data plain_env \<lparr>year = 2026, month = 11, day = 3\<rparr>
            (fst (clear_all plain_env (Some ''Coffee,4.50,Food\<newline>''))) = Inr s
          \<and> expenses_list s = [] \<and> total_expenses s = 0)"
proof -
  have h: "os_remove plain_env = None"
    by (simp add: plain_env_def)
  from clear_all_then_read [OF h, of "''Coffee,4.50,Food\<newline>''"
      "\<lparr>year = 2026, month = 11, day = 3\<rparr>"] h
  show ?thesis by blast
qed

text \<open>
  C9 (as amended). Two snapshots of the same store, taken on any two dates, agree in
  every field other than \<open>daily_budget\<close> (and fail alike when the read fails); they agree
  in \<open>daily_budget\<close> as well when the two dates leave the same number of remaining days,
  as two reads on one date do.
\<close>

theorem snapshot_twice:
  assumes "monthrange_days (year d1) (month d1) = Inr m1"
    and "monthrange_days (year d2) (month d2) = Inr m2"
  shows "map_sum id (\<lambda>s. s\<lparr>daily_budget := 0\<rparr>) (get_expense_data E d1 fs)
       = map_sum id (\<lambda>s. s\<lparr>daily_budget := 0\<rparr>) (get_expense_data E d2 fs)
     \<and> (max 1 (m1 - day d1) = max 1 (m2 - day d2)
          \<longrightarrow> get_expense_data E d1 fs = get_expense_data E d2 fs)"
proof (cases fs)
  case None
  then show ?thesis by (simp add: get_expense_data_None)
next
  case (Some body)
  show ?thesis
  proof (cases "read_csv E body")
    case (Inl e)
    then show ?thesis
      using Some by (simp add: get_expense_data_raises)
  next
    case (Inr raw)
    show ?thesis
      unfolding Some get_expense_data_present [OF Inr assms(1)]
        get_expense_data_present [OF Inr assms(2)]
      by simp
  qed
qed

theorem snapshot_twice_witness:
  "monthrange_days 2026 11 = Inr 30 \<and> monthrange_days 2026 12 = Inr 31
   \<and> max 1 (30 - 3) = max 1 (31 - (4::int))
   \<and> get_expense_data plain_env \<lparr>year = 2026, month = 11, day = 3\<rparr>
        (Some ''Coffee,4.50,Food\<newline>'')
     = get_expense_data plain_env \<lparr>year = 2026, month = 12, day = 4\<rparr>
        (Some ''Coffee,4.50,Food\<newline>'')"
proof -
  have a: "monthrange_days 2026 11 = Inr 30" and b: "monthrange_days 2026 12 = Inr 31"
    by code_simp+
  from snapshot_twice [of "\<lparr>year = 2026, month = 11, day = 3\<rparr>" 30
      "\<lparr>year = 2026, month = 12, day = 4\<rparr>" 31 plain_env "Some ''Coffee,4.50,Food\<newline>''"]
    a b
  show ?thesis by simp
qed

text \<open>
  The claim as first stated has the two snapshots agree in \<open>daily_budget\<close> too. The
  aggregator reads the clock: on the unmodified store holding \<^verbatim>\<open>Coffee,4.50,Food\<close>, the
  snapshot of 3 November 2026 has a daily budget of 3991/54 and the snapshot of
  4 November has 3991/52.
\<close>

theorem snapshot_twice_counterexample:
  "get_expense_data plain_env \<lparr>year = 2026, month = 11, day = 3\<rparr>
        (Some ''Coffee,4.50,Food\<newline>'')
     = Inr \<lparr>expenses_list =
              [\<lparr>name = Some ''Coffee'', amount = Some (9 / 2), category = Some ''Food''\<rparr>],
            category_totals = [(''Food'', 9 / 2)], total_spent = 9 / 2,
            remaining_budget = 3991 / 2, daily_budget = 3991 / 54, total_expenses = 1\<rparr>
   \<and> get_expense_data plain_env \<lparr>year = 2026, month = 11, day = 4\<rparr>
        (Some ''Coffee,4.50,Food\<newline>'')
     = Inr \<lparr>expenses_list =
              [\<lparr>name = Some ''Coffee'', amount = Some (9 / 2), category = Some ''Food''\<rparr>],
            category_totals = [(''Food'', 9 / 2)], total_spent = 9 / 2,
            remaining_budget = 3991 / 2, daily_budget = 3991 / 52, total_expenses = 1\<rparr>
   \<and> (3991 / 54 :: rat) \<noteq> 3991 / 52"
  by code_simp

text \<open>
  C10. A stored record whose name or category is missing, or whose amount does not
  parse, has no effect on the aggregator's snapshot: the snapshot is the one of the store
  without that record. The chart renderer ignores a record only when its category is
  missing or its amount does not parse; a record with a category and a parseable amount
  is added to the bar of its category whatever its name. So the two can count different
  records of one store: for the line \<^verbatim>\<open>,5.0,Food\<close> the aggregator counts no record
  and has no category total, and the chart has a bar of 5 for Food.
\<close>

theorem aggregator_and_chart_row_sets:
  assumes "read_csv E t1 = Inr (xs @ r # ys)" and "read_csv E t2 = Inr (xs @ ys)"
  shows "(name r = None \<or> category r = None \<or> Option.bind (amount r) (to_numeric E) = None
          \<longrightarrow> get_expense_data E now (Some t1) = get_expense_data E now (Some t2))
     \<and> (category r = None \<or> Option.bind (amount r) (to_numeric E) = None
          \<longrightarrow> generate_chart E (Some t1) = generate_chart E (Some t2))
     \<and> (category r = Some k \<and> Option.bind (amount r) (to_numeric E) = Some a
          \<longrightarrow> (k, amount_sum (filter (\<lambda>r. category r = Some k)
                     (dropna_amount_category (coerce_amount E (xs @ ys)))) + a)
                \<in> set (chart_series E (xs @ r # ys)))
     \<and> map_sum id total_expenses
          (get_expense_data plain_env \<lparr>year = 2026, month = 11, day = 3\<rparr>
             (Some '',5.0,Food\<newline>'')) = Inr 0
     \<and> map_sum id category_totals
          (get_expense_data plain_env \<lparr>year = 2026, month = 11, day = 3\<rparr>
             (Some '',5.0,Food\<newline>'')) = Inr []
     \<and> map_sum id (chart_series plain_env) (read_csv plain_env '',5.0,Food\<newline>'')
          = Inr [(''Food'', 5)]"
proof (intro conjI impI)
  assume "name r = None \<or> category r = None \<or> Option.bind (amount r) (to_numeric E) = None"
  then have "dropna (coerce_amount E (xs @ r # ys)) = dropna (coerce_amount E (xs @ ys))"
    by (rule dropna_skip)
  with assms show "get_expense_data E now (Some t1) = get_expense_data E now (Some t2)"
    by (rule get_expense_data_same_rows)
next
  assume "category r = None \<or> Option.bind (amount r) (to_numeric E) = None"
  then have "dropna_amount_category (coerce_amount E (xs @ r # ys))
       = dropna_amount_category (coerce_amount E (xs @ ys))"
    by (rule dropna_amount_category_skip)
  with assms show "generate_chart E (Some t1) = generate_chart E (Some t2)"
    by (rule generate_chart_same_rows)
next
  assume "category r = Some k \<and> Option.bind (amount r) (to_numeric E) = Some a"
  then show "(k, amount_sum (filter (\<lambda>r. category r = Some k)
                     (dropna_amount_category (coerce_amount E (xs @ ys)))) + a)
                \<in> set (chart_series E (xs @ r # ys))"
    using chart_series_counts by blast
next
  show "map_sum id total_expenses
          (get_expense_data plain_env \<lparr>year = 2026, month = 11, day = 3\<rparr>
             (Some '',5.0,Food\<newline>'')) = Inr 0"
    by code_simp
  show "map_sum id category_totals
          (get_expense_data plain_env \<lparr>year = 2026, month = 11, day = 3\<rparr>
             (Some '',5.0,Food\<newline>'')) = Inr []"
    by code_simp
  show "map_sum id (chart_series plain_env) (read_csv plain_env '',5.0,Food\<newline>'')
          = Inr [(''Food'', 5)]"
    by code_simp
qed

theorem aggregator_and_chart_row_sets_witness:
  "read_csv plain_env ''Coffee,4.50,Food\<newline>,5.0,Food\<newline>''
     = Inr ([\<lparr>name = Some ''Coffee'', amount = Some ''4.50'', category = Some ''Food''\<rparr>]
            @ \<lparr>name = None, amount = Some ''5.0'', category = Some ''Food''\<rparr> # [])
   \<and> read_csv plain_env ''Coffee,4.50,Food\<newline>''
     = Inr ([\<lparr>name = Some ''Coffee'', amount = Some ''4.50'', category = Some ''Food''\<rparr>] @ [])
   \<and> get_expense_data plain_env \<lparr>year = 2026, month = 11, day = 3\<rparr>
        (Some ''Coffee,4.50,Food\<newline>,5.0,Food\<newline>'')
     = get_expense_data plain_env \<lparr>year = 2026, month = 11, day = 3\<rparr>
        (Some ''Coffee,4.50,Food\<newline>'')
   \<and> (''Food'', 19 / 2)
       \<in> set (chart_series plain_env
            ([\<lparr>name = Some ''Coffee'', amount = Some ''4.50'', category = Some ''Food''\<rparr>]
             @ \<lparr>name = None, amount = Some ''5.0'', category = Some ''Food''\<rparr> # []))
   \<and> read_csv plain_env ''Coffee,4.50,Food\<newline>Taxi,abc,Transport\<newline>''
     = Inr ([\<lparr>name = Some ''Coffee'', amount = Some ''4.50'', category = Some ''Food''\<rparr>]
            @ \<lparr>name = Some ''Taxi'', amount = Some ''abc'', category = Some ''Transport''\<rparr> # [])
   \<and> generate_chart plain_env (Some ''Coffee,4.50,Food\<newline>Taxi,abc,Transport\<newline>'')
     = generate_chart plain_env (Some ''Coffee,4.50,Food\<newline>'')"
proof -
  let ?c = "\<lparr>name = Some ''Coffee'', amount = Some ''4.50'', category = Some ''Food''\<rparr>"
  let ?r = "\<lparr>name = None, amount = Some ''5.0'', category = Some ''Food''\<rparr>"
  let ?t = "\<lparr>name = Some ''Taxi'', amount = Some ''abc'', category = Some ''Transport''\<rparr>"
  have h1: "read_csv plain_env ''Coffee,4.50,Food\<newline>,5.0,Food\<newline>'' = Inr ([?c] @ ?r # [])"
    by code_simp
  have h2: "read_csv plain_env ''Coffee,4.50,Food\<newline>'' = Inr ([?c] @ [])"
    by code_simp
  have h3: "read_csv plain_env ''Coffee,4.50,Food\<newline>Taxi,abc,Transport\<newline>''
      = Inr ([?c] @ ?t # [])"
    by code_simp
  have r1: "name ?r = None" by simp
  have r2: "category ?r = Some ''Food''
      \<and> Option.bind (amount ?r) (to_numeric plain_env) = Some 5"
    by code_simp
  have r3: "Option.bind (amount ?t) (to_numeric plain_env) = None"
    by code_simp
  have v: "amount_sum (filter (\<lambda>r. category r = Some ''Food'')
      (dropna_amount_category (coerce_amount plain_env ([?c] @ [])))) + 5 = 19 / 2"
    by code_simp
  from aggregator_and_chart_row_sets [OF h1 h2, of "\<lparr>year = 2026, month = 11, day = 3\<rparr>" "''Food''" 5]
    r1 r2
  have a: "get_expense_data plain_env \<lparr>year = 2026, month = 11, day = 3\<rparr>
        (Some ''Coffee,4.50,Food\<newline>,5.0,Food\<newline>'')
     = get_expense_data plain_env \<lparr>year = 2026, month = 11, day = 3\<rparr>
        (Some ''Coffee,4.50,Food\<newline>'')"
    and b: "(''Food'', amount_sum (filter (\<lambda>r. category r = Some ''Food'')
      (dropna_amount_category (coerce_amount plain_env ([?c] @ [])))) + 5)
       \<in> set (chart_series plain_env ([?c] @ ?r # []))"
    by blast+
  from aggregator_and_chart_row_sets [OF h3 h2, of "\<lparr>year = 2026, month = 11, day = 3\<rparr>"] r3
  have c: "generate_chart plain_env (Some ''Coffee,4.50,Food\<newline>Taxi,abc,Transport\<newline>'')
     = generate_chart plain_env (Some ''Coffee,4.50,Food\<newline>'')"
    by blast
  from h1 h2 h3 a b [unfolded v] c show ?thesis
    by blast
qed

end
